theory Spec2Isabelle
  imports Complex_Main
begin

section \<open>Data model\<close>

text \<open>
  The analyzer of \<^verbatim>\<open>benchmark-suite/analyze_results.py\<close> reads a JSON list of result
  records, each a dictionary with a \<^verbatim>\<open>system\<close> label and a \<^verbatim>\<open>metrics\<close> dictionary.

  A metric value is what JSON can put there. Numbers (Python \<^verbatim>\<open>int\<close> and \<^verbatim>\<open>float\<close>, and the
  booleans, which Python reads as 1 and 0) are exact rationals: comparison and the test
  against 0 are exact in Python, and the rounding of the one float division is not
  modelled. \<open>Null\<close> and \<open>Str\<close> stand for the values that are not numbers: Python compares
  them unequal to 0 and raises \<^verbatim>\<open>TypeError\<close> when it subtracts them.
\<close>

datatype json_value = Num rat | Null | Str string

datatype py_error = TypeError

record result_record =
  system :: string
  metrics :: "string \<rightharpoonup> json_value"

text \<open>The two attributes \<^verbatim>\<open>self.sharedmem\<close> and \<^verbatim>\<open>self.with_mtls\<close> of the analyzer.\<close>

record analyzer =
  sharedmem :: "result_record option"
  with_mtls :: "result_record option"

text \<open>
  The dictionary \<^verbatim>\<open>compare_metric\<close> returns; its keys \<^verbatim>\<open>sharedmem\<close> and \<^verbatim>\<open>with_mtls\<close>
  are the fields \<open>sharedmem_value\<close> and \<open>with_mtls_value\<close>.
\<close>

record comparison =
  metric :: string
  sharedmem_value :: rat
  with_mtls_value :: rat
  diff_percent :: rat
  winner :: string

text \<open>The dictionary \<^verbatim>\<open>calculate_overall_winner\<close> returns.\<close>

record score_entry =
  score :: int
  percentage :: rat

record verdict =
  sharedmem_entry :: score_entry
  with_mtls_entry :: score_entry
  overall_winner :: string

section \<open>The analyzer\<close>

text \<open>
  \<^verbatim>\<open>__init__\<close>: \<^verbatim>\<open>next((r for r in self.results if r['system'] == ...), None)\<close> is the first
  record with that label, or \<^verbatim>\<open>None\<close>.
\<close>

definition init_analyzer :: "result_record list \<Rightarrow> analyzer" where
  "init_analyzer results =
     \<lparr>sharedmem = find (\<lambda>r. system r = ''P2pComm'') results,
      with_mtls = find (\<lambda>r. system r = ''MtlsComm'') results\<rparr>"

text \<open>\<^verbatim>\<open>r['metrics'].get(metric_name, 0)\<close>\<close>

definition get_metric :: "result_record \<Rightarrow> string \<Rightarrow> json_value" where
  "get_metric r metric_name =
     (case metrics r metric_name of None \<Rightarrow> Num 0 | Some v \<Rightarrow> v)"

text \<open>
  \<^verbatim>\<open>compare_metric\<close>. A record found by \<^verbatim>\<open>__init__\<close> has the key \<^verbatim>\<open>system\<close>, so it is a
  non-empty dictionary and \<^verbatim>\<open>not self.sharedmem\<close> holds exactly when none was found.
  \<open>Inr None\<close> is the return value \<^verbatim>\<open>None\<close>; \<open>Inl TypeError\<close> is the exception of
  \<^verbatim>\<open>val2 - val1\<close> on a value that is not a number.
\<close>

definition compare_metric ::
    "analyzer \<Rightarrow> string \<Rightarrow> bool \<Rightarrow> py_error + comparison option" where
  "compare_metric self metric_name higher_is_better =
     (case sharedmem self of
        None \<Rightarrow> Inr None
      | Some a \<Rightarrow>
          (case with_mtls self of
             None \<Rightarrow> Inr None
           | Some b \<Rightarrow>
               (let val1 = get_metric a metric_name;
                    val2 = get_metric b metric_name
                in if val1 = Num 0 then Inr None
                   else (case val1 of
                       Num v1 \<Rightarrow>
                         (case val2 of
                            Num v2 \<Rightarrow>
                              Inr (Some
                                \<lparr>metric = metric_name,
                                 sharedmem_value = v1,
                                 with_mtls_value = v2,
                                 diff_percent = ((v2 - v1) / v1) * 100,
                                 winner =
                                   (if higher_is_better
                                    then (if v2 > v1 then ''mtls-comm'' else ''p2p-comm'')
                                    else (if v2 < v1 then ''mtls-comm'' else ''p2p-comm''))\<rparr>)
                          | _ \<Rightarrow> Inl TypeError)
                     | _ \<Rightarrow> Inl TypeError))))"

text \<open>
  The thirteen calls of \<^verbatim>\<open>generate_comparison_table\<close>, in the order they are written,
  each with its \<^verbatim>\<open>higher_is_better\<close> argument.
\<close>

definition metric_calls :: "(string \<times> bool) list" where
  "metric_calls =
     [(''votes_per_second'', True),
      (''messages_per_second'', True),
      (''bytes_per_second'', True),
      (''latency_p50'', False),
      (''latency_p95'', False),
      (''latency_p99'', False),
      (''latency_mean'', False),
      (''cpu_usage_percent'', False),
      (''memory_usage_mb'', False),
      (''tls_handshake_time_us'', False),
      (''cert_validation_time_us'', False),
      (''encryption_overhead_percent'', False),
      (''delivery_success_rate'', True)]"

text \<open>
  \<^verbatim>\<open>comparisons.append(self.compare_metric(...))\<close>, call after call: the first exception
  ends the run.
\<close>

fun append_comparisons ::
    "analyzer \<Rightarrow> (string \<times> bool) list \<Rightarrow> py_error + comparison option list" where
  "append_comparisons self [] = Inr []"
| "append_comparisons self ((metric_name, higher_is_better) # calls) =
     (case compare_metric self metric_name higher_is_better of
        Inl e \<Rightarrow> Inl e
      | Inr c \<Rightarrow>
          (case append_comparisons self calls of
             Inl e \<Rightarrow> Inl e
           | Inr cs \<Rightarrow> Inr (c # cs)))"

text \<open>\<^verbatim>\<open>return [c for c in comparisons if c is not None]\<close>\<close>

definition generate_comparison_table :: "analyzer \<Rightarrow> py_error + comparison list" where
  "generate_comparison_table self =
     (case append_comparisons self metric_calls of
        Inl e \<Rightarrow> Inl e
      | Inr comparisons \<Rightarrow> Inr (map the (filter (\<lambda>c. c \<noteq> None) comparisons)))"

text \<open>The groups of \<^verbatim>\<open>print_comparison_table\<close>, in the order of the dictionary literal.\<close>

definition categories :: "(string \<times> string list) list" where
  "categories =
     [(''Throughput'', [''votes_per_second'', ''messages_per_second'', ''bytes_per_second'']),
      (''Latency'', [''latency_p50'', ''latency_p95'', ''latency_p99'', ''latency_mean'']),
      (''Resource Usage'', [''cpu_usage_percent'', ''memory_usage_mb'']),
      (''Security'',
         [''tls_handshake_time_us'', ''cert_validation_time_us'',
          ''encryption_overhead_percent'']),
      (''Reliability'', [''delivery_success_rate''])]"

subsection \<open>The verdict\<close>

definition weights :: "string \<rightharpoonup> int" where
  "weights =
     map_of
       [(''votes_per_second'', 10),
        (''messages_per_second'', 5),
        (''latency_p50'', 10),
        (''latency_p95'', 8),
        (''latency_p99'', 6),
        (''cpu_usage_percent'', 7),
        (''memory_usage_mb'', 6),
        (''tls_handshake_time_us'', 4),
        (''delivery_success_rate'', 9)]"

text \<open>\<^verbatim>\<open>weights.get(metric, 1)\<close>\<close>

definition weight_of :: "string \<Rightarrow> int" where
  "weight_of m = (case weights m of None \<Rightarrow> 1 | Some w \<Rightarrow> w)"

text \<open>
  The loop \<^verbatim>\<open>for comp in comparisons\<close>, on the pair
  \<open>(sharedmem_score, with_mtls_score)\<close>.
\<close>

fun add_scores :: "comparison list \<Rightarrow> int \<times> int \<Rightarrow> int \<times> int" where
  "add_scores [] scores = scores"
| "add_scores (cmp # comps) (sharedmem_score, with_mtls_score) =
     (let weight = weight_of (metric cmp)
      in if winner cmp = ''p2p-comm''
         then add_scores comps (sharedmem_score + weight, with_mtls_score)
         else add_scores comps (sharedmem_score, with_mtls_score + weight))"

text \<open>
  The body of \<^verbatim>\<open>calculate_overall_winner\<close> after its first line, on the list that
  \<^verbatim>\<open>generate_comparison_table\<close> returned.
\<close>

definition overall_winner_of :: "comparison list \<Rightarrow> verdict" where
  "overall_winner_of comparisons =
     (case add_scores comparisons (0, 0) of
        (sharedmem_score, with_mtls_score) \<Rightarrow>
          (let total_score = sharedmem_score + with_mtls_score
           in \<lparr>sharedmem_entry =
                 \<lparr>score = sharedmem_score,
                  percentage =
                    (if total_score > 0
                     then (of_int sharedmem_score / of_int total_score) * 100 else 0)\<rparr>,
               with_mtls_entry =
                 \<lparr>score = with_mtls_score,
                  percentage =
                    (if total_score > 0
                     then (of_int with_mtls_score / of_int total_score) * 100 else 0)\<rparr>,
               overall_winner =
                 (if with_mtls_score > sharedmem_score then ''mtls-comm'' else ''p2p-comm'')\<rparr>))"

definition calculate_overall_winner :: "analyzer \<Rightarrow> py_error + verdict" where
  "calculate_overall_winner self =
     (case generate_comparison_table self of
        Inl e \<Rightarrow> Inl e
      | Inr comparisons \<Rightarrow> Inr (overall_winner_of comparisons))"

section \<open>A sample run\<close>

text \<open>
  A result set with a third system, which the analyzer ignores. \<open>P2pComm\<close> lacks
  \<open>latency_p95\<close> and reports 0 for \<open>latency_p99\<close>; \<open>MtlsComm\<close> lacks
  \<open>memory_usage_mb\<close>; \<open>bytes_per_second\<close> has no entry in \<open>weights\<close>.
\<close>

definition sample_p2p :: result_record where
  "sample_p2p =
     \<lparr>system = ''P2pComm'',
      metrics =
        [''votes_per_second'' \<mapsto> Num 100,
         ''bytes_per_second'' \<mapsto> Num 100,
         ''latency_p50'' \<mapsto> Num 100,
         ''latency_p99'' \<mapsto> Num 0,
         ''cpu_usage_percent'' \<mapsto> Num 5,
         ''memory_usage_mb'' \<mapsto> Num 64]\<rparr>"

definition sample_mtls :: result_record where
  "sample_mtls =
     \<lparr>system = ''MtlsComm'',
      metrics =
        [''votes_per_second'' \<mapsto> Num 200,
         ''bytes_per_second'' \<mapsto> Num 200,
         ''latency_p50'' \<mapsto> Num 80,
         ''latency_p95'' \<mapsto> Num 9,
         ''latency_p99'' \<mapsto> Num 7,
         ''cpu_usage_percent'' \<mapsto> Num 5]\<rparr>"

definition sample_results :: "result_record list" where
  "sample_results =
     [\<lparr>system = ''Baseline'', metrics = [''votes_per_second'' \<mapsto> Num 1]\<rparr>,
      sample_p2p, sample_mtls]"

definition sample_table :: "comparison list" where
  "sample_table =
     [\<lparr>metric = ''votes_per_second'', sharedmem_value = 100, with_mtls_value = 200,
       diff_percent = 100, winner = ''mtls-comm''\<rparr>,
      \<lparr>metric = ''bytes_per_second'', sharedmem_value = 100, with_mtls_value = 200,
       diff_percent = 100, winner = ''mtls-comm''\<rparr>,
      \<lparr>metric = ''latency_p50'', sharedmem_value = 100, with_mtls_value = 80,
       diff_percent = - 20, winner = ''mtls-comm''\<rparr>,
      \<lparr>metric = ''cpu_usage_percent'', sharedmem_value = 5, with_mtls_value = 5,
       diff_percent = 0, winner = ''p2p-comm''\<rparr>,
      \<lparr>metric = ''memory_usage_mb'', sharedmem_value = 64, with_mtls_value = 0,
       diff_percent = - 100, winner = ''mtls-comm''\<rparr>]"

text \<open>Two comparisons whose weights are both 10, one won by each subject.\<close>

definition tied_table :: "comparison list" where
  "tied_table =
     [\<lparr>metric = ''votes_per_second'', sharedmem_value = 100, with_mtls_value = 200,
       diff_percent = 100, winner = ''mtls-comm''\<rparr>,
      \<lparr>metric = ''latency_p50'', sharedmem_value = 80, with_mtls_value = 100,
       diff_percent = 25, winner = ''p2p-comm''\<rparr>]"

section \<open>Facts about the engine\<close>

lemma sample_analyzer:
  "init_analyzer sample_results =
     \<lparr>sharedmem = Some sample_p2p, with_mtls = Some sample_mtls\<rparr>"
  by (simp add: init_analyzer_def sample_results_def sample_p2p_def sample_mtls_def)

lemma sample_run:
  "generate_comparison_table (init_analyzer sample_results) = Inr sample_table"
  by (simp add: sample_analyzer generate_comparison_table_def metric_calls_def
      compare_metric_def get_metric_def sample_p2p_def sample_mtls_def sample_table_def)

text \<open>What a call of \<open>compare_metric\<close> that returns a dictionary has read and computed.\<close>

lemma compare_metric_Some:
  assumes "compare_metric self m h = Inr (Some c)"
  obtains a b v1 v2 where
    "sharedmem self = Some a" "with_mtls self = Some b"
    "get_metric a m = Num v1" "get_metric b m = Num v2" "v1 \<noteq> 0"
    "c = \<lparr>metric = m, sharedmem_value = v1, with_mtls_value = v2,
          diff_percent = ((v2 - v1) / v1) * 100,
          winner = (if h then (if v2 > v1 then ''mtls-comm'' else ''p2p-comm'')
                    else (if v2 < v1 then ''mtls-comm'' else ''p2p-comm''))\<rparr>"
  using assms
  by (auto simp: compare_metric_def Let_def split: option.splits if_splits json_value.splits)

lemma append_comparisons_mem:
  "append_comparisons self calls = Inr xs \<Longrightarrow> x \<in> set xs \<Longrightarrow>
     \<exists>(m, h) \<in> set calls. compare_metric self m h = Inr x"
proof (induction self calls arbitrary: xs rule: append_comparisons.induct)
  case (1 self)
  then show ?case by simp
next
  case (2 self metric_name higher_is_better calls)
  from "2.prems"(1) obtain y ys where
    y: "compare_metric self metric_name higher_is_better = Inr y"
    and ys: "append_comparisons self calls = Inr ys" and xs: "xs = y # ys"
    by (auto split: sum.splits)
  from "2.prems"(2) xs consider "x = y" | "x \<in> set ys" by auto
  then show ?case
  proof cases
    case 1
    with y show ?thesis by auto
  next
    case 2
    with "2.IH" [OF y ys] show ?thesis by auto
  qed
qed

text \<open>Every entry of the table is the result of one of the thirteen calls.\<close>

lemma table_mem:
  assumes "generate_comparison_table self = Inr cs" "c \<in> set cs"
  shows "\<exists>(m, h) \<in> set metric_calls. compare_metric self m h = Inr (Some c)"
proof -
  from assms(1) obtain xs where xs: "append_comparisons self metric_calls = Inr xs"
    and cs: "cs = map the (filter (\<lambda>c. c \<noteq> None) xs)"
    by (auto simp: generate_comparison_table_def split: sum.splits)
  from assms(2) cs have "Some c \<in> set xs" by auto
  with xs show ?thesis by (rule append_comparisons_mem)
qed

text \<open>No metric is called twice, so \<open>metric_calls\<close> gives each metric one polarity.\<close>

lemma metric_calls_polarity:
  "(m, h) \<in> set metric_calls \<Longrightarrow> map_of metric_calls m = Some h"
  by (rule map_of_is_SomeI) (simp_all add: metric_calls_def)

text \<open>A value of 0 for subject A ends the call before subject B's value is used.\<close>

lemma compare_metric_zero:
  assumes "sharedmem self = Some a" and "get_metric a m = Num 0"
  shows "compare_metric self m h = Inr None"
  using assms by (simp add: compare_metric_def split: option.splits)



text \<open>
  The names of the dictionaries a run returns follow the order of its calls: they are the
  called names, filtered.
\<close>

lemma append_comparisons_names:
  assumes "append_comparisons self calls = Inr xs" and "distinct (map fst calls)"
    and "out = map metric (map the (filter (\<lambda>c. c \<noteq> None) xs))"
  shows "set out \<subseteq> set (map fst calls) \<and>
         out = filter (\<lambda>m. m \<in> set out) (map fst calls)"
  using assms
proof (induction self calls arbitrary: xs out rule: append_comparisons.induct)
  case (1 self)
  then show ?case by simp
next
  case (2 self metric_name higher_is_better calls)
  from "2.prems"(1) obtain y ys where
    y: "compare_metric self metric_name higher_is_better = Inr y"
    and ys: "append_comparisons self calls = Inr ys" and xs: "xs = y # ys"
    by (auto split: sum.splits)
  define out' where "out' = map metric (map the (filter (\<lambda>c. c \<noteq> None) ys))"
  from "2.prems"(2) have fresh: "metric_name \<notin> set (map fst calls)"
    and dist: "distinct (map fst calls)" by simp_all
  from "2.IH" [OF y ys dist out'_def] have sub: "set out' \<subseteq> set (map fst calls)"
    and ord: "out' = filter (\<lambda>m. m \<in> set out') (map fst calls)" by blast+
  from sub fresh have notin: "metric_name \<notin> set out'" by blast
  show ?case
  proof (cases y)
    case None
    with xs "2.prems"(3) have out: "out = out'" by (simp add: out'_def)
    from notin have "filter (\<lambda>m. m \<in> set out') (metric_name # map fst calls) =
        filter (\<lambda>m. m \<in> set out') (map fst calls)" by simp
    with ord have "out' = filter (\<lambda>m. m \<in> set out') (metric_name # map fst calls)"
      by simp
    moreover from sub have "set out' \<subseteq> set (metric_name # map fst calls)" by auto
    ultimately show ?thesis unfolding out by simp
  next
    case (Some c)
    with y have "compare_metric self metric_name higher_is_better = Inr (Some c)"
      by simp
    then have "metric c = metric_name" by (rule compare_metric_Some) simp
    with xs Some "2.prems"(3) have out: "out = metric_name # out'"
      by (simp add: out'_def)
    have "filter (\<lambda>m. m \<in> set (metric_name # out')) (map fst calls) =
        filter (\<lambda>m. m \<in> set out') (map fst calls)"
      using fresh by (intro filter_cong) auto
    with ord have "filter (\<lambda>m. m \<in> set (metric_name # out')) (map fst calls) = out'"
      by simp
    then have "metric_name # out' =
        filter (\<lambda>m. m \<in> set (metric_name # out')) (metric_name # map fst calls)"
      by simp
    moreover from sub have "set (metric_name # out') \<subseteq> set (metric_name # map fst calls)"
      by auto
    ultimately show ?thesis unfolding out by simp
  qed
qed

text \<open>The loop adds the weights of the comparisons each subject won.\<close>

lemma add_scores_sums:
  "add_scores cs (a, b) =
     (a + sum_list (map (\<lambda>c. weight_of (metric c)) (filter (\<lambda>c. winner c = ''p2p-comm'') cs)),
      b + sum_list (map (\<lambda>c. weight_of (metric c)) (filter (\<lambda>c. winner c \<noteq> ''p2p-comm'') cs)))"
  by (induction cs arbitrary: a b) (simp_all add: Let_def)

lemma overall_winner_of_scores:
  "score (sharedmem_entry (overall_winner_of cs)) =
     sum_list (map (\<lambda>c. weight_of (metric c)) (filter (\<lambda>c. winner c = ''p2p-comm'') cs))"
  "score (with_mtls_entry (overall_winner_of cs)) =
     sum_list (map (\<lambda>c. weight_of (metric c)) (filter (\<lambda>c. winner c \<noteq> ''p2p-comm'') cs))"
  "overall_winner (overall_winner_of cs) =
     (if score (with_mtls_entry (overall_winner_of cs)) >
         score (sharedmem_entry (overall_winner_of cs))
      then ''mtls-comm'' else ''p2p-comm'')"
  by (simp_all add: overall_winner_of_def add_scores_sums Let_def)

section \<open>The claims\<close>

text \<open>
  C1, as stated, fails. \<open>bytes_per_second\<close> has no entry in \<open>weights\<close>, and the loop reads
  its weight with \<^verbatim>\<open>weights.get(metric, 1)\<close>: the comparison for it, won by
  \<open>'mtls-comm'\<close>, raises that score from 0 to 1, and in the sample run it is one of the 27
  points of \<open>'mtls-comm'\<close>.
\<close>

theorem unweighted_metric_scores:
  "weights ''bytes_per_second'' = None \<and>
   metric (sample_table ! 1) = ''bytes_per_second'' \<and>
   winner (sample_table ! 1) = ''mtls-comm'' \<and>
   score (with_mtls_entry (overall_winner_of [])) = 0 \<and>
   score (with_mtls_entry (overall_winner_of [sample_table ! 1])) = 1 \<and>
   calculate_overall_winner (init_analyzer sample_results) =
     Inr \<lparr>sharedmem_entry = \<lparr>score = 7, percentage = 350 / 17\<rparr>,
          with_mtls_entry = \<lparr>score = 27, percentage = 1350 / 17\<rparr>,
          overall_winner = ''mtls-comm''\<rparr>"
  by (simp add: calculate_overall_winner_def sample_run)
     (simp add: overall_winner_of_def sample_table_def weight_of_def weights_def)

text \<open>
  C1, amended. A comparison whose metric has no entry in \<open>weights\<close> adds exactly 1 to the
  score of its winner and nothing to the other score, wherever it stands in the list.
\<close>

theorem unweighted_metric_adds_one:
  assumes "weights (metric c) = None"
  shows "score (sharedmem_entry (overall_winner_of (pre @ c # post))) =
           score (sharedmem_entry (overall_winner_of (pre @ post))) +
             (if winner c = ''p2p-comm'' then 1 else 0) \<and>
         score (with_mtls_entry (overall_winner_of (pre @ c # post))) =
           score (with_mtls_entry (overall_winner_of (pre @ post))) +
             (if winner c = ''p2p-comm'' then 0 else 1)"
proof -
  from assms have "weight_of (metric c) = 1" by (simp add: weight_of_def)
  then show ?thesis by (simp add: overall_winner_of_scores)
qed

theorem unweighted_metric_adds_one_witness:
  "weights (metric (sample_table ! 1)) = None \<and>
   winner (sample_table ! 1) = ''mtls-comm'' \<and>
   score (sharedmem_entry (overall_winner_of (tied_table @ sample_table ! 1 # []))) = 10 \<and>
   score (sharedmem_entry (overall_winner_of (tied_table @ []))) = 10 \<and>
   score (with_mtls_entry (overall_winner_of (tied_table @ sample_table ! 1 # []))) = 11 \<and>
   score (with_mtls_entry (overall_winner_of (tied_table @ []))) = 10"
proof -
  have w: "weights (metric (sample_table ! 1)) = None"
    by (simp add: sample_table_def weights_def)
  have m: "winner (sample_table ! 1) = ''mtls-comm''"
    by (simp add: sample_table_def)
  have t: "score (sharedmem_entry (overall_winner_of (tied_table @ []))) = 10"
    "score (with_mtls_entry (overall_winner_of (tied_table @ []))) = 10"
    by (simp_all add: overall_winner_of_def tied_table_def weight_of_def weights_def)
  from unweighted_metric_adds_one [OF w, of tied_table "[]"] w m t
  show ?thesis by simp
qed




text \<open>
  C3. For every comparison in the table, with the polarity the engine passes for its metric
  (the \<open>higher_is_better\<close> argument of its call): when higher is better and subject B's
  value is greater, or lower is better and subject B's value is smaller, the winner is
  subject B's label \<open>'mtls-comm'\<close>; when the two values are equal the winner is subject
  A's label \<open>'p2p-comm'\<close>.
\<close>

theorem per_metric_winner_rule:
  assumes "generate_comparison_table self = Inr cs" and "c \<in> set cs"
  shows "\<exists>higher_is_better.
           map_of metric_calls (metric c) = Some higher_is_better \<and>
           (higher_is_better \<and> with_mtls_value c > sharedmem_value c
              \<longrightarrow> winner c = ''mtls-comm'') \<and>
           (\<not> higher_is_better \<and> with_mtls_value c < sharedmem_value c
              \<longrightarrow> winner c = ''mtls-comm'') \<and>
           (sharedmem_value c = with_mtls_value c \<longrightarrow> winner c = ''p2p-comm'')"
proof -
  from assms obtain m h where mh: "(m, h) \<in> set metric_calls"
    and c: "compare_metric self m h = Inr (Some c)"
    by (blast dest: table_mem)
  from c have "metric c = m"
    and "h \<and> with_mtls_value c > sharedmem_value c \<longrightarrow> winner c = ''mtls-comm''"
    and "\<not> h \<and> with_mtls_value c < sharedmem_value c \<longrightarrow> winner c = ''mtls-comm''"
    and "sharedmem_value c = with_mtls_value c \<longrightarrow> winner c = ''p2p-comm''"
    by (rule compare_metric_Some, simp)+
  with metric_calls_polarity [OF mh] show ?thesis by blast
qed

theorem per_metric_winner_rule_witness:
  "generate_comparison_table (init_analyzer sample_results) = Inr sample_table \<and>
   map_of metric_calls (metric (sample_table ! 0)) = Some True \<and>
   with_mtls_value (sample_table ! 0) > sharedmem_value (sample_table ! 0) \<and>
   winner (sample_table ! 0) = ''mtls-comm'' \<and>
   map_of metric_calls (metric (sample_table ! 2)) = Some False \<and>
   with_mtls_value (sample_table ! 2) < sharedmem_value (sample_table ! 2) \<and>
   winner (sample_table ! 2) = ''mtls-comm'' \<and>
   sharedmem_value (sample_table ! 3) = with_mtls_value (sample_table ! 3) \<and>
   winner (sample_table ! 3) = ''p2p-comm''"
  using per_metric_winner_rule [OF sample_run, of "sample_table ! 0"]
    per_metric_winner_rule [OF sample_run, of "sample_table ! 2"]
    per_metric_winner_rule [OF sample_run, of "sample_table ! 3"]
  by (simp add: sample_run) (simp add: sample_table_def metric_calls_def)

text \<open>
  C4. For every list of comparisons, the overall winner is \<open>'mtls-comm'\<close> exactly when the
  score of \<open>with_mtls\<close> is strictly greater than the score of \<open>sharedmem\<close>, and
  \<open>'p2p-comm'\<close> otherwise; on the empty list both scores and both percentages are 0 and the
  winner is \<open>'p2p-comm'\<close>.
\<close>

theorem overall_winner_rule:
  "(overall_winner (overall_winner_of cs) = ''mtls-comm'') =
     (score (with_mtls_entry (overall_winner_of cs)) >
      score (sharedmem_entry (overall_winner_of cs))) \<and>
   (overall_winner (overall_winner_of cs) = ''p2p-comm'') =
     (score (with_mtls_entry (overall_winner_of cs)) \<le>
      score (sharedmem_entry (overall_winner_of cs))) \<and>
   overall_winner_of [] =
     \<lparr>sharedmem_entry = \<lparr>score = 0, percentage = 0\<rparr>,
      with_mtls_entry = \<lparr>score = 0, percentage = 0\<rparr>,
      overall_winner = ''p2p-comm''\<rparr>"
  by (simp add: overall_winner_of_scores(3)) (simp add: overall_winner_of_def)

theorem overall_winner_rule_witness:
  "score (sharedmem_entry (overall_winner_of tied_table)) = 10 \<and>
   score (with_mtls_entry (overall_winner_of tied_table)) = 10 \<and>
   overall_winner (overall_winner_of tied_table) = ''p2p-comm'' \<and>
   score (sharedmem_entry (overall_winner_of sample_table)) = 7 \<and>
   score (with_mtls_entry (overall_winner_of sample_table)) = 27 \<and>
   overall_winner (overall_winner_of sample_table) = ''mtls-comm''"
proof -
  have "score (sharedmem_entry (overall_winner_of tied_table)) = 10"
    "score (with_mtls_entry (overall_winner_of tied_table)) = 10"
    by (simp_all add: overall_winner_of_def tied_table_def weight_of_def weights_def)
  moreover have "score (sharedmem_entry (overall_winner_of sample_table)) = 7"
    "score (with_mtls_entry (overall_winner_of sample_table)) = 27"
    by (simp_all add: overall_winner_of_def sample_table_def weight_of_def weights_def)
  ultimately show ?thesis
    using overall_winner_rule [of tied_table] overall_winner_rule [of sample_table]
    by simp
qed



text \<open>
  C6. When subject A's metrics lack a metric or hold 0 for it, \<open>compare_metric\<close> returns
  \<^verbatim>\<open>None\<close> for it, whatever subject B holds, and no table the engine returns has a
  comparison for that metric.
\<close>

theorem zero_denominator_excluded:
  assumes "sharedmem self = Some a"
    and "metrics a m = None \<or> metrics a m = Some (Num 0)"
  shows "compare_metric self m h = Inr None \<and>
         (\<forall>cs. generate_comparison_table self = Inr cs \<longrightarrow> m \<notin> metric ` set cs)"
proof -
  from assms(2) have zero: "get_metric a m = Num 0"
    by (auto simp: get_metric_def)
  have none: "compare_metric self m h' = Inr None" for h'
    using assms(1) zero by (rule compare_metric_zero)
  have "m \<notin> metric ` set cs" if "generate_comparison_table self = Inr cs" for cs
  proof
    assume "m \<in> metric ` set cs"
    then obtain c where c: "c \<in> set cs" and m: "metric c = m" by auto
    from that c obtain m' h' where c': "compare_metric self m' h' = Inr (Some c)"
      by (blast dest: table_mem)
    then have "metric c = m'" by (rule compare_metric_Some) simp
    with m c' none [of h'] show False by simp
  qed
  with none show ?thesis by blast
qed

theorem zero_denominator_excluded_witness:
  "sharedmem (init_analyzer sample_results) = Some sample_p2p \<and>
   metrics sample_p2p ''latency_p95'' = None \<and>
   metrics sample_p2p ''latency_p99'' = Some (Num 0) \<and>
   metrics sample_mtls ''latency_p95'' = Some (Num 9) \<and>
   metrics sample_mtls ''latency_p99'' = Some (Num 7) \<and>
   compare_metric (init_analyzer sample_results) ''latency_p95'' False = Inr None \<and>
   compare_metric (init_analyzer sample_results) ''latency_p99'' False = Inr None \<and>
   generate_comparison_table (init_analyzer sample_results) = Inr sample_table \<and>
   ''latency_p95'' \<notin> metric ` set sample_table \<and>
   ''latency_p99'' \<notin> metric ` set sample_table"
proof -
  have a: "sharedmem (init_analyzer sample_results) = Some sample_p2p"
    by (simp add: sample_analyzer)
  have p95: "metrics sample_p2p ''latency_p95'' = None"
    and p99: "metrics sample_p2p ''latency_p99'' = Some (Num 0)"
    and b: "metrics sample_mtls ''latency_p95'' = Some (Num 9)"
      "metrics sample_mtls ''latency_p99'' = Some (Num 7)"
    by (simp_all add: sample_p2p_def sample_mtls_def)
  from p95 have h95: "metrics sample_p2p ''latency_p95'' = None \<or>
      metrics sample_p2p ''latency_p95'' = Some (Num 0)" by simp
  from p99 have h99: "metrics sample_p2p ''latency_p99'' = None \<or>
      metrics sample_p2p ''latency_p99'' = Some (Num 0)" by simp
  from zero_denominator_excluded [OF a h95, of False]
    zero_denominator_excluded [OF a h99, of False] a p95 p99 b sample_run
  show ?thesis by blast
qed

text \<open>
  C7. When the result set has no record labelled \<open>'P2pComm'\<close> or none labelled
  \<open>'MtlsComm'\<close>, the engine returns the empty table, and no error.
\<close>

theorem missing_subject_empty:
  assumes "(\<forall>r \<in> set results. system r \<noteq> ''P2pComm'') \<or>
           (\<forall>r \<in> set results. system r \<noteq> ''MtlsComm'')"
  shows "generate_comparison_table (init_analyzer results) = Inr []"
proof -
  from assms have "sharedmem (init_analyzer results) = None \<or>
      with_mtls (init_analyzer results) = None"
    by (auto simp: init_analyzer_def find_None_iff)
  then have "compare_metric (init_analyzer results) m h = Inr None" for m h
    by (auto simp: compare_metric_def split: option.splits)
  then show ?thesis
    by (simp add: generate_comparison_table_def metric_calls_def)
qed

theorem missing_subject_empty_witness:
  "(\<exists>r \<in> set [sample_p2p]. system r = ''P2pComm'') \<and>
   list_all (\<lambda>r. system r \<noteq> ''MtlsComm'') [sample_p2p] \<and>
   generate_comparison_table (init_analyzer [sample_p2p]) = Inr [] \<and>
   generate_comparison_table (init_analyzer []) = Inr []"
  using missing_subject_empty [of "[sample_p2p]"] missing_subject_empty [of "[]"]
  by (simp add: sample_p2p_def)



text \<open>
  C9. The metric names of the table, in order, are the fixed enumeration with the metrics
  that have no comparison left out. The enumeration is the order of the thirteen calls,
  which is the groups Throughput, Latency, Resource Usage, Security, Reliability one after
  the other, each in the order it is written; no metric occurs twice in it. The metrics of
  a record are a map that the engine reads by key only, so their order in the input has no
  part in the result.
\<close>

theorem table_in_enumeration_order:
  assumes "generate_comparison_table self = Inr cs"
  shows "map metric cs = filter (\<lambda>m. m \<in> metric ` set cs) (concat (map snd categories)) \<and>
         concat (map snd categories) = map fst metric_calls \<and>
         map fst categories =
           [''Throughput'', ''Latency'', ''Resource Usage'', ''Security'', ''Reliability''] \<and>
         distinct (map fst metric_calls)"
proof -
  have cat: "concat (map snd categories) = map fst metric_calls"
    by (simp add: categories_def metric_calls_def)
  have names: "map fst categories =
      [''Throughput'', ''Latency'', ''Resource Usage'', ''Security'', ''Reliability'']"
    by (simp add: categories_def)
  have dist: "distinct (map fst metric_calls)"
    by (simp add: metric_calls_def)
  from assms obtain xs where xs: "append_comparisons self metric_calls = Inr xs"
    and cs: "cs = map the (filter (\<lambda>c. c \<noteq> None) xs)"
    by (auto simp: generate_comparison_table_def split: sum.splits)
  from cs have "map metric cs = map metric (map the (filter (\<lambda>c. c \<noteq> None) xs))"
    by simp
  from append_comparisons_names [OF xs dist this]
  have "map metric cs = filter (\<lambda>m. m \<in> set (map metric cs)) (map fst metric_calls)"
    by blast
  moreover have "set (map metric cs) = metric ` set cs" by simp
  ultimately have "map metric cs = filter (\<lambda>m. m \<in> metric ` set cs) (map fst metric_calls)"
    by simp
  with cat names dist show ?thesis by simp
qed

theorem table_in_enumeration_order_witness:
  "generate_comparison_table (init_analyzer sample_results) = Inr sample_table \<and>
   map metric sample_table =
     [''votes_per_second'', ''bytes_per_second'', ''latency_p50'', ''cpu_usage_percent'',
      ''memory_usage_mb''] \<and>
   map metric sample_table =
     filter (\<lambda>m. m \<in> metric ` set sample_table) (concat (map snd categories))"
proof -
  have "map metric sample_table =
     [''votes_per_second'', ''bytes_per_second'', ''latency_p50'', ''cpu_usage_percent'',
      ''memory_usage_mb'']"
    by (simp add: sample_table_def)
  with table_in_enumeration_order [OF sample_run] sample_run show ?thesis by blast
qed

text \<open>
  C10. Whatever the result records hold, every comparison in the table that
  \<open>generate_comparison_table\<close> returns has \<open>'p2p-comm'\<close> or \<open>'mtls-comm'\<close> as its winner:
  the two literals of \<open>compare_metric\<close>, not the \<open>system\<close> labels \<open>'P2pComm'\<close> and
  \<open>'MtlsComm'\<close> that select the records.
\<close>

theorem winner_is_fixed_label:
  assumes "generate_comparison_table self = Inr cs"
  shows "\<forall>c \<in> set cs. winner c = ''p2p-comm'' \<or> winner c = ''mtls-comm''"
proof
  fix c assume "c \<in> set cs"
  with assms obtain m h where "compare_metric self m h = Inr (Some c)"
    by (blast dest: table_mem)
  then show "winner c = ''p2p-comm'' \<or> winner c = ''mtls-comm''"
    by (rule compare_metric_Some) simp
qed

theorem winner_is_fixed_label_witness:
  "generate_comparison_table (init_analyzer sample_results) = Inr sample_table \<and>
   map winner sample_table =
     [''mtls-comm'', ''mtls-comm'', ''mtls-comm'', ''p2p-comm'', ''mtls-comm''] \<and>
   list_all (\<lambda>c. winner c = ''p2p-comm'' \<or> winner c = ''mtls-comm'') sample_table"
  using winner_is_fixed_label [OF sample_run]
  by (simp add: sample_run list_all_iff) (simp add: sample_table_def)

end
